theory Spec2Isabelle
  imports Main
begin

section \<open>JavaScript values used by the client\<close>

text \<open>
  A JavaScript string is modelled as a \<^typ>\<open>string\<close>: one \<^typ>\<open>char\<close> per code unit,
  for the code units below 256. Every string operation the client uses
  (\<^verbatim>\<open>startsWith\<close>, \<^verbatim>\<open>substr\<close>, \<^verbatim>\<open>split\<close>, \<^verbatim>\<open>includes\<close>, \<^verbatim>\<open>match\<close>) works code unit by
  code unit. A value that may be \<^verbatim>\<open>null\<close> is an option, \<^const>\<open>None\<close> standing for
  \<^verbatim>\<open>null\<close>.
\<close>

definition startsWith :: "string \<Rightarrow> string \<Rightarrow> bool" where
  "startsWith s p = (take (length p) s = p)"

definition substr :: "string \<Rightarrow> nat \<Rightarrow> string" where
  "substr s n = drop n s"

text \<open>\<^verbatim>\<open>s.split(d)\<close> for a separator of one code unit: never the empty array.\<close>

fun split_on :: "char \<Rightarrow> string \<Rightarrow> string list" where
  "split_on d [] = [[]]"
| "split_on d (c # cs) =
     (if c = d then [] # split_on d cs
      else (case split_on d cs of
              [] \<Rightarrow> [[c]]
            | w # ws \<Rightarrow> (c # w) # ws))"

text \<open>\<^verbatim>\<open>!v\<close> on a value that is a string or \<^verbatim>\<open>null\<close>: true of \<^verbatim>\<open>null\<close> and of \<^verbatim>\<open>''\<close>.\<close>

definition falsy :: "string option \<Rightarrow> bool" where
  "falsy v = (case v of None \<Rightarrow> True | Some s \<Rightarrow> s = [])"

text \<open>The class \<^verbatim>\<open>\s\<close> of a regular expression, on the code units below 256:
  TAB, LF, VT, FF, CR, SPACE and NBSP.\<close>

definition is_space :: "char \<Rightarrow> bool" where
  "is_space c = (c \<in> set [CHR 0x09, CHR 0x0A, CHR 0x0B, CHR 0x0C, CHR 0x0D, CHR 0x20, CHR 0xA0])"

text \<open>\<^verbatim>\<open>s.indexOf(p) >= 0\<close>: the pattern occurs somewhere in the string.\<close>

fun occurs_in :: "string \<Rightarrow> string \<Rightarrow> bool" where
  "occurs_in p [] = (p = [])"
| "occurs_in p (c # cs) = (startsWith (c # cs) p \<or> occurs_in p cs)"

subsection \<open>The mention pattern\<close>

text \<open>
  The only regular expression the client builds is
  \<^verbatim>\<open>new RegExp(`^<@!?${this.user.id}>\\s?`)\<close>. The id of a user is a string of decimal
  digits, so it holds no character that is special in a pattern.
\<close>

datatype digit = D0 | D1 | D2 | D3 | D4 | D5 | D6 | D7 | D8 | D9

fun digit_char :: "digit \<Rightarrow> char" where
  "digit_char D0 = CHR ''0''"
| "digit_char D1 = CHR ''1''"
| "digit_char D2 = CHR ''2''"
| "digit_char D3 = CHR ''3''"
| "digit_char D4 = CHR ''4''"
| "digit_char D5 = CHR ''5''"
| "digit_char D6 = CHR ''6''"
| "digit_char D7 = CHR ''7''"
| "digit_char D8 = CHR ''8''"
| "digit_char D9 = CHR ''9''"

datatype regexp = MentionRegExp "digit list"

text \<open>The text matched by \<^verbatim>\<open>^<@!?ID>\<close> at the start of the string: the optional
  \<^verbatim>\<open>!\<close> is tried first (greedy), then left out.\<close>

definition mention_head :: "digit list \<Rightarrow> string \<Rightarrow> string option" where
  "mention_head uid s =
     (if startsWith s (''<@!'' @ map digit_char uid @ ''>'')
      then Some (''<@!'' @ map digit_char uid @ ''>'')
      else if startsWith s (''<@'' @ map digit_char uid @ ''>'')
      then Some (''<@'' @ map digit_char uid @ ''>'')
      else None)"

text \<open>The trailing \<^verbatim>\<open>\s?\<close> takes one whitespace code unit when there is one.\<close>

definition match_mention :: "digit list \<Rightarrow> string \<Rightarrow> string option" where
  "match_mention uid s =
     (case mention_head uid s of
        None \<Rightarrow> None
      | Some m \<Rightarrow>
          (case drop (length m) s of
             [] \<Rightarrow> Some m
           | c # _ \<Rightarrow> if is_space c then Some (m @ [c]) else Some m))"

text \<open>
  \<^verbatim>\<open>s.match(re)\<close>, giving \<^verbatim>\<open>match[0]\<close> or \<^verbatim>\<open>null\<close>. Before the \<^verbatim>\<open>ready\<close> event the
  field \<^verbatim>\<open>mentionPrefixRegExp\<close> is \<^verbatim>\<open>null\<close>, and \<^verbatim>\<open>s.match(null)\<close> is
  \<^verbatim>\<open>s.match(new RegExp(null))\<close>: a search for the text \<^verbatim>\<open>null\<close> anywhere in \<^verbatim>\<open>s\<close>.
\<close>

definition js_match :: "string \<Rightarrow> regexp option \<Rightarrow> string option" where
  "js_match s re =
     (case re of
        None \<Rightarrow> if occurs_in ''null'' s then Some ''null'' else None
      | Some (MentionRegExp uid) \<Rightarrow> match_mention uid s)"

section \<open>Messages, commands and the client\<close>

record user =
  bot :: bool

text \<open>Of a message the client reads \<^verbatim>\<open>msg.author\<close> (absent on system messages),
  \<^verbatim>\<open>msg.author.bot\<close>, \<^verbatim>\<open>msg.content\<close> and whether \<^verbatim>\<open>msg.channel.guild\<close> is set.\<close>

record message =
  author :: "user option"
  content :: string
  channel_guild :: bool

text \<open>Of a command the client reads \<^verbatim>\<open>name\<close>, \<^verbatim>\<open>names\<close> and \<^verbatim>\<open>filename\<close>. A name
  is a string or \<^verbatim>\<open>null\<close>, the name of the command a lone mention runs.\<close>

record command =
  name :: "string option"
  aliases :: "string option list"
  filename :: "string option"

text \<open>Modelled from the spec: the class \<^verbatim>\<open>Command\<close> (\<^verbatim>\<open>src/Command.js\<close>) is not among the
  sources. Its \<^verbatim>\<open>names\<close> are "an ordered set of strings (first is canonical name; rest are
  aliases)".\<close>

definition names :: "command \<Rightarrow> string option list" where
  "names c = name c # aliases c"

type_synonym handle = nat

record client =
  defaultPrefix :: "string option"
  allowMention :: bool
  ignoreBots :: bool
  storage :: "handle option"
  commands :: "command list"
  mentionPrefixRegExp :: "regexp option"
  app :: "handle option"

subsection \<open>Construction\<close>

text \<open>A property of the options object is missing (\<^verbatim>\<open>undefined\<close>), \<^verbatim>\<open>null\<close> or given.\<close>

datatype 'a property = Undefined | Null | Given 'a

record options =
  opt_prefix :: "string property"
  opt_allowMention :: "bool property"
  opt_ignoreBots :: "bool property"
  opt_storage :: "handle property"

text \<open>\<^verbatim>\<open>v == null\<close>\<close>

fun is_nullish :: "'a property \<Rightarrow> bool" where
  "is_nullish Undefined = True"
| "is_nullish Null = True"
| "is_nullish (Given v) = False"

fun given :: "'a property \<Rightarrow> 'a option" where
  "given (Given v) = Some v"
| "given Undefined = None"
| "given Null = None"

text \<open>The constructor returns the new client and the warnings it sent to
  \<^verbatim>\<open>process.emitWarning\<close>.\<close>

definition constructor :: "options \<Rightarrow> client \<times> string list" where
  "constructor opts =
     (\<lparr> defaultPrefix = given (opt_prefix opts),
         allowMention =
           (if is_nullish (opt_allowMention opts) then True
            else (case opt_allowMention opts of Given b \<Rightarrow> b | Undefined \<Rightarrow> True | Null \<Rightarrow> True)),
         ignoreBots =
           (if is_nullish (opt_ignoreBots opts) then True
            else (case opt_ignoreBots opts of Given b \<Rightarrow> b | Undefined \<Rightarrow> True | Null \<Rightarrow> True)),
         storage = given (opt_storage opts),
         commands = [],
         mentionPrefixRegExp = None,
         app = None \<rparr>,
      (if opt_prefix opts = Given []
       then [''defaultPrefix is an empty string; bot will not require a prefix to run commands'']
       else [])
      @ (if given (opt_storage opts) = None then [''No storage source specified.''] else []))"

text \<open>The \<^verbatim>\<open>ready\<close> event: the pattern is built from the id of the bot's own user, and
  the application is stored once fetched.\<close>

definition ready :: "digit list \<Rightarrow> handle \<Rightarrow> client \<Rightarrow> client" where
  "ready uid application cl =
     cl\<lparr> mentionPrefixRegExp := Some (MentionRegExp uid), app := Some application \<rparr>"

section \<open>Prefix resolution\<close>

definition prefixForMessage :: "client \<Rightarrow> message \<Rightarrow> string option" where
  "prefixForMessage cl msg = (if channel_guild msg then defaultPrefix cl else Some [])"

text \<open>The four \<^verbatim>\<open>return\<close> statements of \<^verbatim>\<open>splitPrefixFromContent\<close>, in their order.\<close>

datatype rule = TraditionalPrefix | MentionPrefix | DirectMessage | GotNothing

text \<open>
  \<^verbatim>\<open>splitPrefixFromContent\<close>, with the \<^verbatim>\<open>return\<close> it leaves by. The first inner \<open>case\<close> is
  the test \<^verbatim>\<open>prefix != null && msg.content.startsWith(prefix)\<close>, the second is the test
  \<^verbatim>\<open>this.allowMention && match\<close>, and the \<open>if\<close> is the test \<^verbatim>\<open>!msg.channel.guild\<close>.
\<close>

definition splitPrefixFromContent_rule ::
  "client \<Rightarrow> message \<Rightarrow> rule \<times> string option \<times> string option" where
  "splitPrefixFromContent_rule cl msg =
     (case (case prefixForMessage cl msg of
              None \<Rightarrow> None
            | Some p \<Rightarrow> if startsWith (content msg) p then Some p else None) of
        Some p \<Rightarrow> (TraditionalPrefix, Some p, Some (substr (content msg) (length p)))
      | None \<Rightarrow>
          (case (if allowMention cl then js_match (content msg) (mentionPrefixRegExp cl) else None) of
             Some m \<Rightarrow> (MentionPrefix, Some m, Some (substr (content msg) (length m)))
           | None \<Rightarrow>
               if channel_guild msg then (GotNothing, None, None)
               else (DirectMessage, Some [], Some (content msg))))"

definition splitPrefixFromContent :: "client \<Rightarrow> message \<Rightarrow> string option \<times> string option" where
  "splitPrefixFromContent cl msg = snd (splitPrefixFromContent_rule cl msg)"

section \<open>The command registry\<close>

text \<open>What a call can throw: a \<^verbatim>\<open>TypeError\<close>, an \<^verbatim>\<open>Error\<close> (each with its message), or
  any other value, thrown by a command or by the loading of a file.\<close>

datatype exn = TypeError string | Error string | Thrown string

text \<open>The values a listener of an event receives.\<close>

datatype jsval = Cmd command | Msg message

text \<open>
  What a call does that can be seen from outside, in the order it happens:
  \<^item> \<open>Emit name args\<close>: \<^verbatim>\<open>this.emit(name, ...args)\<close>;
  \<^item> \<open>Execute command msg args prefix commandName\<close>: the call
    \<^verbatim>\<open>command.execute(this, msg, args, prefix, commandName)\<close>;
  \<^item> \<open>Stored cs\<close>: a write to \<^verbatim>\<open>this.commands\<close> (\<^verbatim>\<open>push\<close> or \<^verbatim>\<open>splice\<close>) that left the
    array holding \<open>cs\<close>.
\<close>

datatype action =
    Emit string "jsval list"
  | Execute command message "string list" "string option" "string option"
  | Stored "command list"

text \<open>\<^verbatim>\<open>this.commands.find(c => c.names.includes(name))\<close>: the array is searched from
  index 0, and \<^const>\<open>None\<close> stands for the \<^verbatim>\<open>undefined\<close> of an unsuccessful search.\<close>

definition commandForName :: "client \<Rightarrow> string option \<Rightarrow> command option" where
  "commandForName cl nm = find (\<lambda>c. nm \<in> set (names c)) (commands cl)"

text \<open>A name inside a template literal: \<^verbatim>\<open>null\<close> prints as \<^verbatim>\<open>null\<close>.\<close>

definition show_name :: "string option \<Rightarrow> string" where
  "show_name nm = (case nm of None \<Rightarrow> ''null'' | Some s \<Rightarrow> s)"

text \<open>A value handed to \<^verbatim>\<open>addCommand\<close>, or exported by a file: an instance of
  \<^verbatim>\<open>Command\<close>, or some other object.\<close>

datatype exported = CommandObject command | OtherObject

text \<open>
  A call that changes the client returns the client as the call left it, what the call
  did, and the exception it threw, if any.
\<close>

type_synonym outcome = "client \<times> action list \<times> exn option"

definition client_after :: "outcome \<Rightarrow> client" where
  "client_after r = fst r"

definition actions :: "outcome \<Rightarrow> action list" where
  "actions r = fst (snd r)"

definition thrown :: "outcome \<Rightarrow> exn option" where
  "thrown r = snd (snd r)"

definition addCommand :: "client \<Rightarrow> exported \<Rightarrow> outcome" where
  "addCommand cl v =
     (case v of
        OtherObject \<Rightarrow> (cl, [], Some (TypeError ''Not a command''))
      | CommandObject command \<Rightarrow>
          (case commandForName cl (name command) of
             Some _ \<Rightarrow>
               (cl, [], Some (Error (''Command '' @ show_name (name command) @ '' already registered'')))
           | None \<Rightarrow>
               (cl\<lparr>commands := commands cl @ [command]\<rparr>,
                [Stored (commands cl @ [command]), Emit ''commandLoaded'' [Cmd command]],
                None)))"

text \<open>\<^verbatim>\<open>reload(filename)\<close> evaluates the file as it is now: it throws, or gives what the
  file exports. The files are a parameter of the model.\<close>

datatype loaded = LoadThrows exn | Exports exported

type_synonym loader = "string \<Rightarrow> loaded"

definition addCommandFile :: "loader \<Rightarrow> client \<Rightarrow> string \<Rightarrow> outcome" where
  "addCommandFile load cl f =
     (case load f of
        LoadThrows e \<Rightarrow> (cl, [], Some e)
      | Exports OtherObject \<Rightarrow> addCommand cl OtherObject
      | Exports (CommandObject command) \<Rightarrow>
          addCommand cl (CommandObject (command\<lparr>filename := Some f\<rparr>)))"

text \<open>\<^verbatim>\<open>this.commands.splice(i, 1)\<close>\<close>

definition splice1 :: "nat \<Rightarrow> 'a list \<Rightarrow> 'a list" where
  "splice1 i xs = take i xs @ drop (Suc i) xs"

text \<open>
  The loop \<^verbatim>\<open>while (i--) { ... }\<close> of \<^verbatim>\<open>reloadCommands\<close>, entered with counter \<open>Suc i\<close>:
  the test leaves \<open>i\<close> in the counter and the body works on index \<open>i\<close>. An index at or
  past the end would read \<^verbatim>\<open>undefined\<close>, and \<^verbatim>\<open>command.filename\<close> would throw.
\<close>

fun reloadCommands_loop :: "loader \<Rightarrow> nat \<Rightarrow> client \<Rightarrow> outcome" where
  "reloadCommands_loop load 0 cl = (cl, [], None)"
| "reloadCommands_loop load (Suc i) cl =
     (if length (commands cl) \<le> i
      then (cl, [], Some (TypeError ''Cannot read property filename of undefined''))
      else
        (case filename (commands cl ! i) of
           None \<Rightarrow> reloadCommands_loop load i cl
         | Some f \<Rightarrow>
             if f = [] then reloadCommands_loop load i cl
             else
               (case addCommandFile load (cl\<lparr>commands := splice1 i (commands cl)\<rparr>) f of
                  (cl', tr, Some e) \<Rightarrow> (cl', Stored (splice1 i (commands cl)) # tr, Some e)
                | (cl', tr, None) \<Rightarrow>
                    (case reloadCommands_loop load i cl' of
                       (cl'', tr', r) \<Rightarrow>
                         (cl'', Stored (splice1 i (commands cl)) # tr @ tr', r)))))"

definition reloadCommands :: "loader \<Rightarrow> client \<Rightarrow> outcome" where
  "reloadCommands load cl = reloadCommands_loop load (length (commands cl)) cl"

section \<open>Dispatch\<close>

text \<open>
  \<^verbatim>\<open>Command.execute\<close> is not among the sources, and what a command does is its own
  business, so the call is a parameter: for the command, the message, the arguments,
  the prefix and the command name it is given, the call returns a promise that is
  fulfilled, returns one that is rejected, throws, or returns a promise that never
  settles.
\<close>

datatype completion = Fulfilled | RejectsWith exn | Throws exn | NeverSettles

type_synonym executor =
  "command \<Rightarrow> message \<Rightarrow> string list \<Rightarrow> string option \<Rightarrow> string option \<Rightarrow> completion"

text \<open>The promise an \<^verbatim>\<open>async\<close> function returns.\<close>

datatype promise = Resolved | Rejected exn | Pending

text \<open>Lines 114 to 121 of \<^verbatim>\<open>handleMessage\<close>: from \<^verbatim>\<open>content.split(' ')\<close> on.\<close>

definition handleMessage_named ::
  "executor \<Rightarrow> client \<Rightarrow> message \<Rightarrow> string option \<Rightarrow> string option \<Rightarrow> action list \<times> promise" where
  "handleMessage_named exec cl msg prefix remainder =
     (case remainder of
        None \<Rightarrow> ([], Rejected (TypeError ''Cannot read property split of null''))
      | Some words \<Rightarrow>
          (case split_on CHR '' '' words of
             [] \<Rightarrow> ([], Resolved)
           | commandName # args \<Rightarrow>
               (case commandForName cl (Some commandName) of
                  None \<Rightarrow> ([], Resolved)
                | Some command \<Rightarrow>
                    (case exec command msg args prefix (Some commandName) of
                       Fulfilled \<Rightarrow>
                         ([Emit ''preCommand'' [Cmd command, Msg msg],
                           Execute command msg args prefix (Some commandName),
                           Emit ''command'' [Cmd command, Msg msg]], Resolved)
                     | RejectsWith e \<Rightarrow>
                         ([Emit ''preCommand'' [Cmd command, Msg msg],
                           Execute command msg args prefix (Some commandName)], Rejected e)
                     | Throws e \<Rightarrow>
                         ([Emit ''preCommand'' [Cmd command, Msg msg],
                           Execute command msg args prefix (Some commandName)], Rejected e)
                     | NeverSettles \<Rightarrow>
                         ([Emit ''preCommand'' [Cmd command, Msg msg],
                           Execute command msg args prefix (Some commandName)], Pending)))))"

text \<open>
  \<^verbatim>\<open>handleMessage\<close>. The call for a lone mention is not awaited and is followed by no
  \<^verbatim>\<open>return\<close>: unless it throws, control goes on to line 114.
\<close>

definition handleMessage :: "executor \<Rightarrow> client \<Rightarrow> message \<Rightarrow> action list \<times> promise" where
  "handleMessage exec cl msg =
     (case author msg of
        None \<Rightarrow> ([], Resolved)
      | Some a \<Rightarrow>
          if ignoreBots cl \<and> bot a then ([], Resolved)
          else
            (case splitPrefixFromContent cl msg of
               (prefix, remainder) \<Rightarrow>
                 if falsy remainder then
                   (if falsy prefix then ([], Resolved)
                    else
                      (case prefix of
                         None \<Rightarrow> ([], Resolved)
                       | Some p \<Rightarrow>
                           (case js_match p (mentionPrefixRegExp cl) of
                              None \<Rightarrow> ([], Resolved)
                            | Some _ \<Rightarrow>
                                (case commandForName cl None of
                                   None \<Rightarrow> ([], Resolved)
                                 | Some defaultCommand \<Rightarrow>
                                     (case exec defaultCommand msg [] prefix None of
                                        Throws e \<Rightarrow>
                                          ([Execute defaultCommand msg [] prefix None], Rejected e)
                                      | _ \<Rightarrow>
                                          (case handleMessage_named exec cl msg prefix remainder of
                                             (tr, p) \<Rightarrow>
                                               (Execute defaultCommand msg [] prefix None # tr, p)))))))
                 else handleMessage_named exec cl msg prefix remainder))"

section \<open>Notions used to state the properties\<close>

text \<open>A command is reloaded when \<^verbatim>\<open>command.filename\<close> is truthy.\<close>

definition tracked :: "command \<Rightarrow> bool" where
  "tracked c = (\<not> falsy (filename c))"

text \<open>What \<^verbatim>\<open>addCommandFile\<close> registers for the file of a command, when the file exports a
  command.\<close>

definition reloaded_from :: "loader \<Rightarrow> command \<Rightarrow> command option" where
  "reloaded_from load c =
     (case filename c of
        None \<Rightarrow> None
      | Some f \<Rightarrow>
          (case load f of
             Exports (CommandObject k) \<Rightarrow> Some (k\<lparr>filename := Some f\<rparr>)
           | Exports OtherObject \<Rightarrow> None
           | LoadThrows e \<Rightarrow> None))"

text \<open>The file of a command still exports a command with the same set of names.\<close>

definition unchanged_names :: "loader \<Rightarrow> command \<Rightarrow> bool" where
  "unchanged_names load c =
     (case reloaded_from load c of
        None \<Rightarrow> False
      | Some k \<Rightarrow> set (names k) = set (names c))"

text \<open>No two commands of a registry share a name.\<close>

fun names_disjoint :: "command list \<Rightarrow> bool" where
  "names_disjoint [] = True"
| "names_disjoint (c # cs) =
     (list_all (\<lambda>d. set (names c) \<inter> set (names d) = {}) cs \<and> names_disjoint cs)"

text \<open>All the names of a registry.\<close>

definition all_names :: "command list \<Rightarrow> string option set" where
  "all_names cs = set (concat (map names cs))"

text \<open>The contents the registry went through, in order.\<close>

fun registries :: "action list \<Rightarrow> command list list" where
  "registries [] = []"
| "registries (Stored cs # tr) = cs # registries tr"
| "registries (Emit ev args # tr) = registries tr"
| "registries (Execute c m args p n # tr) = registries tr"

text \<open>No two reloaded commands of a registry come from the same file.\<close>

definition one_per_file :: "command list \<Rightarrow> bool" where
  "one_per_file cs = distinct (map filename (filter tracked cs))"

text \<open>A string of whitespace only (the empty string is one), and a name that is such a
  string.\<close>

definition blank :: "string \<Rightarrow> bool" where
  "blank s = list_all is_space s"

definition blank_name :: "string option \<Rightarrow> bool" where
  "blank_name nm = (case nm of None \<Rightarrow> False | Some s \<Rightarrow> blank s)"

definition has_blank_name :: "client \<Rightarrow> bool" where
  "has_blank_name cl = list_ex (\<lambda>c. list_ex blank_name (names c)) (commands cl)"

section \<open>Example clients, commands and messages\<close>

definition bot_options :: options where
  "bot_options = \<lparr> opt_prefix = Given ''!'', opt_allowMention = Undefined,
     opt_ignoreBots = Null, opt_storage = Undefined \<rparr>"

definition quiet_options :: options where
  "quiet_options = \<lparr> opt_prefix = Given ''!'', opt_allowMention = Given False,
     opt_ignoreBots = Given False, opt_storage = Given 1 \<rparr>"

text \<open>The client of \<^const>\<open>bot_options\<close> after \<^verbatim>\<open>ready\<close>, logged in as user 123.\<close>

definition ready_client :: client where
  "ready_client = ready [D1, D2, D3] 7 (fst (constructor bot_options))"

definition human :: user where
  "human = \<lparr> bot = False \<rparr>"

definition guild_message :: "string \<Rightarrow> message" where
  "guild_message s = \<lparr> author = Some human, content = s, channel_guild = True \<rparr>"

definition direct_message :: "string \<Rightarrow> message" where
  "direct_message s = \<lparr> author = Some human, content = s, channel_guild = False \<rparr>"

text \<open>The help command of the repository: \<^verbatim>\<open>new Command(['help', 'man', 'h', null], ...)\<close>.\<close>

definition help_command :: command where
  "help_command =
     \<lparr> name = Some ''help'', aliases = [Some ''man'', Some ''h'', None], filename = None \<rparr>"

definition ping_command :: command where
  "ping_command = \<lparr> name = Some ''ping'', aliases = [], filename = None \<rparr>"

text \<open>A command named \<^verbatim>\<open>h\<close>, with the alias \<^verbatim>\<open>x\<close>.\<close>

definition h_command :: command where
  "h_command = \<lparr> name = Some ''h'', aliases = [Some ''x''], filename = None \<rparr>"

text \<open>The about command of the repository:
  \<^verbatim>\<open>new Command(['about', 'uptime', 'info'], ...)\<close>.\<close>

definition about_command :: command where
  "about_command =
     \<lparr> name = Some ''about'', aliases = [Some ''uptime'', Some ''info''], filename = None \<rparr>"

text \<open>A command with the empty string among its aliases.\<close>

definition menu_command :: command where
  "menu_command = \<lparr> name = Some ''menu'', aliases = [Some []], filename = None \<rparr>"

text \<open>Commands that always complete, and commands that always throw.\<close>

definition fulfils :: executor where
  "fulfils c m args p n = Fulfilled"

definition raises :: executor where
  "raises c m args p n = Throws (Thrown ''boom'')"

text \<open>Commands that always return a promise that is rejected.\<close>

definition rejects :: executor where
  "rejects c m args p n = RejectsWith (Error ''no permission'')"

definition two_commands :: client where
  "two_commands = ready_client\<lparr>commands := [help_command, ping_command]\<rparr>"

text \<open>A directory of command files, and a directory whose files cannot be loaded.\<close>

definition command_files :: loader where
  "command_files f =
     (if f = ''commands/h.js'' then Exports (CommandObject h_command)
      else if f = ''commands/help.js'' then Exports (CommandObject help_command)
      else if f = ''commands/ping.js'' then Exports (CommandObject ping_command)
      else LoadThrows (Thrown ''Cannot find module''))"

definition broken_files :: loader where
  "broken_files f = LoadThrows (Thrown ''SyntaxError'')"

definition from_file :: "string \<Rightarrow> command \<Rightarrow> command" where
  "from_file f c = c\<lparr>filename := Some f\<rparr>"

text \<open>A registry with two commands loaded from files and one added directly, and the
  registry that loading \<^verbatim>\<open>h.js\<close> and then \<^verbatim>\<open>help.js\<close> builds.\<close>

definition tracked_registry :: client where
  "tracked_registry = ready_client\<lparr>commands :=
     [from_file ''commands/ping.js'' ping_command, about_command,
      from_file ''commands/help.js'' help_command]\<rparr>"

definition shadowed_registry :: client where
  "shadowed_registry =
     client_after (addCommandFile command_files
       (client_after (addCommandFile command_files ready_client ''commands/h.js''))
       ''commands/help.js'')"

section \<open>Prefix resolution: properties\<close>

lemma js_match_hello: "js_match ''hello'' re = None"
proof (cases re)
  case None
  then show ?thesis by (simp add: js_match_def startsWith_def)
next
  case (Some r)
  then show ?thesis
    by (cases r) (simp add: js_match_def match_mention_def mention_head_def startsWith_def)
qed

text \<open>
  C5. With the default prefix \<^verbatim>\<open>!\<close>, a guild message \<^verbatim>\<open>!ping\<close> resolves to
  \<^verbatim>\<open>('!', 'ping')\<close>, a direct message \<^verbatim>\<open>ping\<close> to \<^verbatim>\<open>('', 'ping')\<close>, and a guild message
  \<^verbatim>\<open>hello\<close> to \<^verbatim>\<open>(null, null)\<close>: whatever the other fields of the client and of the
  message are, \<^verbatim>\<open>hello\<close> matches no mention pattern.
\<close>

theorem prefix_resolution_examples:
  assumes "defaultPrefix cl = Some ''!''"
  shows "splitPrefixFromContent cl (m\<lparr>content := ''!ping'', channel_guild := True\<rparr>)
           = (Some ''!'', Some ''ping'')
       \<and> splitPrefixFromContent cl (m\<lparr>content := ''ping'', channel_guild := False\<rparr>)
           = (Some [], Some ''ping'')
       \<and> splitPrefixFromContent cl (m\<lparr>content := ''hello'', channel_guild := True\<rparr>)
           = (None, None)"
  using assms
  by (simp add: splitPrefixFromContent_def splitPrefixFromContent_rule_def prefixForMessage_def
      startsWith_def substr_def js_match_hello)

theorem prefix_resolution_examples_witness:
  "splitPrefixFromContent ready_client (guild_message ''!ping'') = (Some ''!'', Some ''ping'')
   \<and> splitPrefixFromContent ready_client (direct_message ''ping'') = (Some [], Some ''ping'')
   \<and> splitPrefixFromContent ready_client (guild_message ''hello'') = (None, None)"
proof -
  have p: "defaultPrefix ready_client = Some ''!''"
    by (simp add: ready_client_def ready_def constructor_def bot_options_def)
  show ?thesis
    using prefix_resolution_examples [OF p, of "guild_message ''x''"]
    by (simp add: guild_message_def direct_message_def)
qed

text \<open>
  C9. A message of a direct-message channel never resolves to \<^verbatim>\<open>(null, null)\<close>: the
  first \<^verbatim>\<open>return\<close> of \<^verbatim>\<open>splitPrefixFromContent\<close> is taken, with the empty prefix and the
  whole content, so neither the mention rule nor the direct-message rule is reached.
\<close>

theorem direct_message_resolves_by_empty_prefix:
  assumes "\<not> channel_guild msg"
  shows "splitPrefixFromContent_rule cl msg = (TraditionalPrefix, Some [], Some (content msg))
       \<and> splitPrefixFromContent cl msg = (Some [], Some (content msg))
       \<and> splitPrefixFromContent cl msg \<noteq> (None, None)"
  using assms
  by (simp add: splitPrefixFromContent_def splitPrefixFromContent_rule_def prefixForMessage_def
      startsWith_def substr_def)

text \<open>A direct message that starts with a mention of the bot: the mention pattern
  matches, and still the empty prefix is the one returned.\<close>

theorem direct_message_resolves_by_empty_prefix_witness:
  "splitPrefixFromContent_rule ready_client (direct_message ''<@123> ping'')
     = (TraditionalPrefix, Some [], Some ''<@123> ping'')
   \<and> js_match ''<@123> ping'' (mentionPrefixRegExp ready_client) = Some ''<@123> ''"
proof -
  have d: "\<not> channel_guild (direct_message ''<@123> ping'')"
    by (simp add: direct_message_def)
  have m: "js_match ''<@123> ping'' (mentionPrefixRegExp ready_client) = Some ''<@123> ''"
    by (simp add: ready_client_def ready_def js_match_def match_mention_def mention_head_def
        startsWith_def is_space_def)
  show ?thesis
    using direct_message_resolves_by_empty_prefix [OF d, of ready_client] m
    by (simp add: direct_message_def)
qed

section \<open>Construction: properties\<close>

text \<open>
  C10. When the options leave \<^verbatim>\<open>allowMention\<close> or \<^verbatim>\<open>ignoreBots\<close> out (\<^verbatim>\<open>undefined\<close> or
  \<^verbatim>\<open>null\<close>), the flag of the client is true; a given value, \<^verbatim>\<open>false\<close> included, is kept.
\<close>

theorem constructor_flag_defaults:
  "(is_nullish (opt_allowMention opts) \<longrightarrow> allowMention (fst (constructor opts)))
   \<and> (is_nullish (opt_ignoreBots opts) \<longrightarrow> ignoreBots (fst (constructor opts)))
   \<and> (opt_allowMention opts = Given b \<longrightarrow> allowMention (fst (constructor opts)) = b)
   \<and> (opt_ignoreBots opts = Given b' \<longrightarrow> ignoreBots (fst (constructor opts)) = b')"
  by (simp add: constructor_def)

theorem constructor_flag_defaults_witness:
  "allowMention (fst (constructor bot_options))
   \<and> ignoreBots (fst (constructor bot_options))
   \<and> \<not> allowMention (fst (constructor quiet_options))
   \<and> \<not> ignoreBots (fst (constructor quiet_options))"
  using constructor_flag_defaults [of bot_options True True]
    constructor_flag_defaults [of quiet_options False False]
  by (simp add: bot_options_def quiet_options_def)

section \<open>Lookup: properties\<close>

lemma find_snoc:
  "find P (xs @ [x]) =
     (case find P xs of Some y \<Rightarrow> Some y | None \<Rightarrow> if P x then Some x else None)"
  by (induction xs) auto

text \<open>
  C6. For every registry and every name asked for, \<^verbatim>\<open>null\<close> included,
  \<^verbatim>\<open>commandForName\<close> returns nothing exactly when no registered command has the name
  among its names, and otherwise the command at the least index that has it. Indices
  follow insertion: \<^verbatim>\<open>addCommand\<close> appends, and a command registered earlier keeps
  answering for a name that a later one carries too.
\<close>

theorem commandForName_first_match:
  "(commandForName cl q = None \<longleftrightarrow> (\<forall>c \<in> set (commands cl). q \<notin> set (names c)))
   \<and> (commandForName cl q = Some c \<longleftrightarrow>
        (\<exists>i < length (commands cl). commands cl ! i = c \<and> q \<in> set (names c)
            \<and> (\<forall>j < i. q \<notin> set (names (commands cl ! j)))))
   \<and> (thrown (addCommand cl (CommandObject d)) = None \<longrightarrow>
        commands (client_after (addCommand cl (CommandObject d))) = commands cl @ [d]
        \<and> commandForName (client_after (addCommand cl (CommandObject d))) q =
            (case commandForName cl q of
               Some e \<Rightarrow> Some e
             | None \<Rightarrow> if q \<in> set (names d) then Some d else None))"
proof (intro conjI)
  show "commandForName cl q = None \<longleftrightarrow> (\<forall>c \<in> set (commands cl). q \<notin> set (names c))"
    by (auto simp: commandForName_def find_None_iff)
  show "commandForName cl q = Some c \<longleftrightarrow>
        (\<exists>i < length (commands cl). commands cl ! i = c \<and> q \<in> set (names c)
            \<and> (\<forall>j < i. q \<notin> set (names (commands cl ! j))))"
    unfolding commandForName_def find_Some_iff by auto
  show "thrown (addCommand cl (CommandObject d)) = None \<longrightarrow>
        commands (client_after (addCommand cl (CommandObject d))) = commands cl @ [d]
        \<and> commandForName (client_after (addCommand cl (CommandObject d))) q =
            (case commandForName cl q of
               Some e \<Rightarrow> Some e
             | None \<Rightarrow> if q \<in> set (names d) then Some d else None)"
    by (auto simp: addCommand_def commandForName_def find_snoc thrown_def client_after_def
        split: option.splits)
qed

text \<open>In the registry of \<^verbatim>\<open>ping\<close> then \<^verbatim>\<open>help\<close>: no command is named \<^verbatim>\<open>nope\<close>, the
  lone-mention name \<^verbatim>\<open>null\<close> finds \<^verbatim>\<open>help\<close> at index 1, and after \<^verbatim>\<open>help\<close> is added to
  a registry of \<^verbatim>\<open>ping\<close>, \<^verbatim>\<open>ping\<close> still answers for its name.\<close>

theorem commandForName_first_match_witness:
  "commandForName (ready_client\<lparr>commands := [ping_command, help_command]\<rparr>) (Some ''nope'') = None
   \<and> commandForName (ready_client\<lparr>commands := [ping_command, help_command]\<rparr>) None = Some help_command
   \<and> thrown (addCommand (ready_client\<lparr>commands := [ping_command]\<rparr>) (CommandObject help_command)) = None
   \<and> commandForName (client_after (addCommand (ready_client\<lparr>commands := [ping_command]\<rparr>)
        (CommandObject help_command))) (Some ''ping'') = Some ping_command"
proof -
  let ?cl = "ready_client\<lparr>commands := [ping_command, help_command]\<rparr>"
  let ?c1 = "ready_client\<lparr>commands := [ping_command]\<rparr>"
  have a: "commandForName ?cl (Some ''nope'') = None"
    using commandForName_first_match [of ?cl "Some ''nope''"]
    by (simp add: names_def ping_command_def help_command_def)
  have b: "commandForName ?cl None = Some help_command"
    using commandForName_first_match [of ?cl None help_command]
    by (auto simp: names_def ping_command_def help_command_def less_Suc_eq)
  have t: "thrown (addCommand ?c1 (CommandObject help_command)) = None"
    by (simp add: addCommand_def thrown_def commandForName_def names_def ping_command_def
        help_command_def)
  have c: "commandForName (client_after (addCommand ?c1 (CommandObject help_command)))
             (Some ''ping'') = Some ping_command"
    using commandForName_first_match [of ?c1 "Some ''ping''" ping_command help_command] t
    by (auto simp: names_def ping_command_def)
  show ?thesis using a b t c by simp
qed

section \<open>The registry: properties\<close>

lemma commandForName_None_iff:
  "commandForName cl q = None \<longleftrightarrow> q \<notin> all_names (commands cl)"
  by (auto simp: commandForName_def find_None_iff all_names_def)

text \<open>\<^verbatim>\<open>addCommand\<close> throws for a command exactly when the name of the command, aliases left
  aside, is a name or an alias of a registered command.\<close>

lemma addCommand_throws_iff:
  "thrown (addCommand cl (CommandObject c)) \<noteq> None \<longleftrightarrow> name c \<in> all_names (commands cl)"
proof (cases "commandForName cl (name c)")
  case None
  then show ?thesis
    using commandForName_None_iff [of cl "name c"] by (simp add: addCommand_def thrown_def)
next
  case (Some d)
  then show ?thesis
    using commandForName_None_iff [of cl "name c"] by (simp add: addCommand_def thrown_def)
qed

text \<open>
  C2. \<^verbatim>\<open>addCommand\<close> looks up \<^verbatim>\<open>command.name\<close> only. Into a registry that holds the command
  \<^verbatim>\<open>h\<close>, the help command is added without an exception, although its alias \<^verbatim>\<open>h\<close> is a
  name of the registry already; in the other order, \<^verbatim>\<open>h\<close> is refused after \<^verbatim>\<open>help\<close>.
\<close>

theorem addCommand_accepts_alias_collision:
  "addCommand (ready_client\<lparr>commands := [h_command]\<rparr>) (CommandObject help_command)
     = (ready_client\<lparr>commands := [h_command, help_command]\<rparr>,
        [Stored [h_command, help_command], Emit ''commandLoaded'' [Cmd help_command]],
        None)
   \<and> Some ''h'' \<in> set (names help_command) \<inter> set (names h_command)
   \<and> thrown (addCommand (ready_client\<lparr>commands := [help_command]\<rparr>) (CommandObject h_command))
       = Some (Error ''Command h already registered'')"
  by (simp add: addCommand_def commandForName_def names_def thrown_def show_name_def
      h_command_def help_command_def)

section \<open>Dispatch: properties\<close>

lemma ready_client_fields:
  "defaultPrefix ready_client = Some ''!''"
  "allowMention ready_client"
  "ignoreBots ready_client"
  "mentionPrefixRegExp ready_client = Some (MentionRegExp [D1, D2, D3])"
  "commands ready_client = []"
  by (simp_all add: ready_client_def ready_def constructor_def bot_options_def)

lemma two_commands_fields:
  "defaultPrefix two_commands = Some ''!''"
  "allowMention two_commands"
  "ignoreBots two_commands"
  "mentionPrefixRegExp two_commands = Some (MentionRegExp [D1, D2, D3])"
  "commands two_commands = [help_command, ping_command]"
  by (simp_all add: two_commands_def ready_client_fields)

lemmas resolution_defs =
  splitPrefixFromContent_def splitPrefixFromContent_rule_def prefixForMessage_def
  startsWith_def substr_def js_match_def match_mention_def mention_head_def is_space_def

text \<open>From line 114 on, a call of a command is always announced: the trace is empty, or it
  starts with the \<^verbatim>\<open>preCommand\<close> event of the command that is called next.\<close>

lemma named_call_is_announced:
  "fst (handleMessage_named exec cl msg prefix remainder) = []
   \<or> (\<exists>c args n rest. fst (handleMessage_named exec cl msg prefix remainder)
         = Emit ''preCommand'' [Cmd c, Msg msg] # Execute c msg args prefix (Some n) # rest)"
  by (auto simp: handleMessage_named_def split: option.splits list.splits completion.splits)

text \<open>
  C3. A lone mention of the bot runs the command named \<^verbatim>\<open>null\<close>, and no \<^verbatim>\<open>preCommand\<close>
  event comes before the call (nor a \<^verbatim>\<open>command\<close> event after it); the same command called
  by its name is announced by \<^verbatim>\<open>preCommand\<close> first.
\<close>

theorem lone_mention_runs_without_preCommand:
  "handleMessage fulfils (ready_client\<lparr>commands := [help_command]\<rparr>) (guild_message ''<@123>'')
     = ([Execute help_command (guild_message ''<@123>'') [] (Some ''<@123>'') None], Resolved)
   \<and> handleMessage fulfils (ready_client\<lparr>commands := [help_command]\<rparr>) (guild_message ''!help'')
     = ([Emit ''preCommand'' [Cmd help_command, Msg (guild_message ''!help'')],
         Execute help_command (guild_message ''!help'') [] (Some ''!'') (Some ''help''),
         Emit ''command'' [Cmd help_command, Msg (guild_message ''!help'')]], Resolved)"
  by (simp add: handleMessage_def handleMessage_named_def splitPrefixFromContent_def
      splitPrefixFromContent_rule_def prefixForMessage_def ready_client_fields
      guild_message_def human_def startsWith_def substr_def js_match_def match_mention_def
      mention_head_def falsy_def commandForName_def names_def help_command_def fulfils_def)

lemma split_on_head_subset: "split_on d s = w # ws \<Longrightarrow> set w \<subseteq> set s"
proof (induction s arbitrary: w ws)
  case Nil
  then show ?case by simp
next
  case (Cons c cs)
  then show ?case
    by (auto split: if_splits list.splits)
qed

lemma blank_head:
  assumes "blank rest" and "split_on d rest = w # ws"
  shows "blank w"
  using assms split_on_head_subset [of d rest w ws]
  by (auto simp: blank_def list_all_iff)

lemma no_blank_name_lookup:
  assumes "\<not> has_blank_name cl" and "blank w"
  shows "commandForName cl (Some w) = None"
  using assms
  by (auto simp: has_blank_name_def commandForName_def find_None_iff list_ex_iff blank_name_def
      split: option.splits)

text \<open>
  C4. When the content after a prefix that does not match the mention pattern is empty,
  or is whitespace only while no registered command has a name made of whitespace only,
  \<^verbatim>\<open>handleMessage\<close> calls no command and emits no event.
\<close>

theorem blank_remainder_is_not_dispatched:
  assumes "splitPrefixFromContent cl msg = (Some p, Some rest)"
    and "blank rest"
    and "js_match p (mentionPrefixRegExp cl) = None"
    and "rest = [] \<or> \<not> has_blank_name cl"
  shows "handleMessage exec cl msg = ([], Resolved)"
proof (cases "rest = []")
  case True
  with assms(1,3) show ?thesis
    by (simp add: handleMessage_def falsy_def split: option.splits)
next
  case False
  with assms(4) have nb: "\<not> has_blank_name cl" by simp
  have named: "handleMessage_named exec cl msg (Some p) (Some rest) = ([], Resolved)"
  proof (cases "split_on CHR '' '' rest")
    case Nil
    then show ?thesis by (simp add: handleMessage_named_def)
  next
    case (Cons w ws)
    then have "commandForName cl (Some w) = None"
      using no_blank_name_lookup [OF nb] blank_head [OF assms(2)] by blast
    with Cons show ?thesis by (simp add: handleMessage_named_def)
  qed
  with False assms(1) show ?thesis
    by (simp add: handleMessage_def falsy_def split: option.splits)
qed

text \<open>The messages \<^verbatim>\<open>"! "\<close>, to a client without a blank name, and \<^verbatim>\<open>"!"\<close>, to a client
  with one.\<close>

theorem blank_remainder_is_not_dispatched_witness:
  "handleMessage fulfils two_commands (guild_message ''! '') = ([], Resolved)
   \<and> handleMessage fulfils (ready_client\<lparr>commands := [menu_command]\<rparr>) (guild_message ''!'')
       = ([], Resolved)"
proof -
  have s1: "splitPrefixFromContent two_commands (guild_message ''! '') = (Some ''!'', Some '' '')"
    by (simp add: resolution_defs two_commands_fields guild_message_def)
  have s2: "splitPrefixFromContent (ready_client\<lparr>commands := [menu_command]\<rparr>) (guild_message ''!'')
      = (Some ''!'', Some [])"
    by (simp add: resolution_defs ready_client_fields guild_message_def)
  have b1: "blank '' ''" and b2: "blank []"
    by (simp_all add: blank_def is_space_def)
  have m1: "js_match ''!'' (mentionPrefixRegExp two_commands) = None"
    and m2: "js_match ''!'' (mentionPrefixRegExp (ready_client\<lparr>commands := [menu_command]\<rparr>)) = None"
    by (simp_all add: resolution_defs two_commands_fields ready_client_fields)
  have n1: "'' '' = [] \<or> \<not> has_blank_name two_commands"
    by (simp add: has_blank_name_def two_commands_fields names_def help_command_def
        ping_command_def blank_name_def blank_def is_space_def)
  have n2: "[] = [] \<or> \<not> has_blank_name (ready_client\<lparr>commands := [menu_command]\<rparr>)"
    by simp
  show ?thesis
    using blank_remainder_is_not_dispatched [OF s1 b1 m1 n1, of fulfils]
      blank_remainder_is_not_dispatched [OF s2 b2 m2 n2, of fulfils]
    by simp
qed

text \<open>The message \<^verbatim>\<open>"! "\<close> to a client whose command \<^verbatim>\<open>menu\<close> has the empty string as an
  alias: the content after the prefix is one space, its first word is the empty string,
  and \<^verbatim>\<open>menu\<close> is called.\<close>

theorem blank_remainder_counterexample:
  "splitPrefixFromContent (ready_client\<lparr>commands := [menu_command]\<rparr>) (guild_message ''! '')
     = (Some ''!'', Some '' '')
   \<and> blank '' ''
   \<and> js_match ''!'' (mentionPrefixRegExp (ready_client\<lparr>commands := [menu_command]\<rparr>)) = None
   \<and> handleMessage fulfils (ready_client\<lparr>commands := [menu_command]\<rparr>) (guild_message ''! '')
     = ([Emit ''preCommand'' [Cmd menu_command, Msg (guild_message ''! '')],
         Execute menu_command (guild_message ''! '') [[]] (Some ''!'') (Some []),
         Emit ''command'' [Cmd menu_command, Msg (guild_message ''! '')]], Resolved)"
  by (simp add: handleMessage_def handleMessage_named_def resolution_defs ready_client_fields
      guild_message_def human_def falsy_def commandForName_def names_def menu_command_def
      fulfils_def blank_def)

lemma handleMessage_by_name:
  assumes "author m = Some u" and "\<not> (ignoreBots cl \<and> bot u)"
    and "splitPrefixFromContent cl m = (Some p, Some r)" and "r \<noteq> []"
  shows "handleMessage exec cl m = handleMessage_named exec cl m (Some p) (Some r)"
  using assms by (auto simp: handleMessage_def falsy_def)

text \<open>
  C1. When the command a message names throws, or returns a promise that is rejected,
  \<^verbatim>\<open>handleMessage\<close> has emitted \<^verbatim>\<open>preCommand\<close> and made the call, emits neither
  \<^verbatim>\<open>command\<close> nor \<^verbatim>\<open>error\<close>, and the promise it returns is rejected with what the
  command raised: nothing is caught. \<^verbatim>\<open>handleMessage\<close> is the listener of
  \<^verbatim>\<open>messageCreate\<close>, and nothing in the client handles the promise it returns.
\<close>

theorem handler_error_is_not_caught:
  assumes "author m = Some u" and "\<not> (ignoreBots cl \<and> bot u)"
    and "splitPrefixFromContent cl m = (Some p, Some r)" and "r \<noteq> []"
    and "split_on CHR '' '' r = n # args"
    and "commandForName cl (Some n) = Some k"
    and "exec k m args (Some p) (Some n) = Throws e
         \<or> exec k m args (Some p) (Some n) = RejectsWith e"
  shows "handleMessage exec cl m =
    ([Emit ''preCommand'' [Cmd k, Msg m], Execute k m args (Some p) (Some n)], Rejected e)"
  using assms(5-7) handleMessage_by_name [OF assms(1-4), of exec]
  by (auto simp: handleMessage_named_def)

text \<open>The command \<^verbatim>\<open>ping\<close>, called with one argument, returns a promise that is
  rejected.\<close>

theorem handler_error_is_not_caught_witness:
  "handleMessage rejects two_commands (guild_message ''!ping now'') =
    ([Emit ''preCommand'' [Cmd ping_command, Msg (guild_message ''!ping now'')],
      Execute ping_command (guild_message ''!ping now'') [''now''] (Some ''!'') (Some ''ping'')],
     Rejected (Error ''no permission''))"
proof -
  have a: "author (guild_message ''!ping now'') = Some human"
    by (simp add: guild_message_def)
  have b: "\<not> (ignoreBots two_commands \<and> bot human)"
    by (simp add: human_def)
  have s: "splitPrefixFromContent two_commands (guild_message ''!ping now'')
             = (Some ''!'', Some ''ping now'')"
    by (simp add: resolution_defs two_commands_fields guild_message_def)
  have w: "split_on CHR '' '' ''ping now'' = [''ping'', ''now'']"
    by simp
  have c: "commandForName two_commands (Some ''ping'') = Some ping_command"
    by (simp add: commandForName_def two_commands_fields names_def help_command_def
        ping_command_def)
  have e: "rejects ping_command (guild_message ''!ping now'') [''now''] (Some ''!'') (Some ''ping'')
             = Throws (Error ''no permission'')
           \<or> rejects ping_command (guild_message ''!ping now'') [''now''] (Some ''!'') (Some ''ping'')
             = RejectsWith (Error ''no permission'')"
    by (simp add: rejects_def)
  show ?thesis
    by (rule handler_error_is_not_caught
        [where exec = rejects and e = "Error ''no permission''", OF a b s _ w c e]) simp
qed

text \<open>The help command throws: the trace ends with the call, and the promise is
  rejected.\<close>

theorem handler_error_counterexample:
  "handleMessage raises (ready_client\<lparr>commands := [help_command]\<rparr>) (guild_message ''!help'')
     = ([Emit ''preCommand'' [Cmd help_command, Msg (guild_message ''!help'')],
         Execute help_command (guild_message ''!help'') [] (Some ''!'') (Some ''help'')],
        Rejected (Thrown ''boom''))"
  by (simp add: handleMessage_def handleMessage_named_def resolution_defs ready_client_fields
      guild_message_def human_def falsy_def commandForName_def names_def help_command_def
      raises_def)

section \<open>Reloading: properties\<close>

lemma loop_step_untracked:
  assumes "commands cl = xs @ x # ys" and "\<not> tracked x"
  shows "reloadCommands_loop load (Suc (length xs)) cl = reloadCommands_loop load (length xs) cl"
  using assms by (auto simp: tracked_def falsy_def split: option.splits)

lemma loop_step_tracked:
  assumes "commands cl = xs @ x # ys" and "filename x = Some f" and "f \<noteq> []"
  shows "reloadCommands_loop load (Suc (length xs)) cl =
     (case addCommandFile load (cl\<lparr>commands := xs @ ys\<rparr>) f of
        (cl', tr, Some e) \<Rightarrow> (cl', Stored (xs @ ys) # tr, Some e)
      | (cl', tr, None) \<Rightarrow>
          (case reloadCommands_loop load (length xs) cl' of
             (cl'', tr', r) \<Rightarrow> (cl'', Stored (xs @ ys) # tr @ tr', r)))"
  using assms by (simp add: splice1_def)

lemma addCommandFile_cases:
  assumes "filename x = Some f"
  shows "(\<exists>e. addCommandFile load cl f = (cl, [], Some e))
       \<or> (\<exists>x'. reloaded_from load x = Some x' \<and> filename x' = Some f
              \<and> commandForName cl (name x') = None
              \<and> addCommandFile load cl f =
                  (cl\<lparr>commands := commands cl @ [x']\<rparr>,
                   [Stored (commands cl @ [x']), Emit ''commandLoaded'' [Cmd x']], None))"
  using assms
  by (auto simp: addCommandFile_def addCommand_def reloaded_from_def
      split: loaded.splits exported.splits option.splits)

lemma addCommandFile_succeeds:
  assumes "filename x = Some f" and "reloaded_from load x = Some x'"
    and "commandForName cl (name x') = None"
  shows "addCommandFile load cl f =
           (cl\<lparr>commands := commands cl @ [x']\<rparr>,
            [Stored (commands cl @ [x']), Emit ''commandLoaded'' [Cmd x']], None)"
  using assms
  by (auto simp: addCommandFile_def addCommand_def reloaded_from_def
      split: loaded.splits exported.splits option.splits)

lemma tracked_filename: "tracked x \<longleftrightarrow> (\<exists>f. filename x = Some f \<and> f \<noteq> [])"
  by (auto simp: tracked_def falsy_def split: option.splits)

declare reloadCommands_loop.simps(2) [simp del]

lemma registries_append: "registries (tr @ tr') = registries tr @ registries tr'"
  by (induction tr rule: registries.induct) simp_all

lemma reload_loop_shape:
  assumes "commands cl = xs @ ys"
  shows "case reloadCommands_loop load (length xs) cl of
           (cl', tr, r) \<Rightarrow>
             filter (\<lambda>c. \<not> tracked c) (commands cl') = filter (\<lambda>c. \<not> tracked c) (xs @ ys)
           \<and> (r = None \<longrightarrow>
                (\<exists>new. commands cl' = filter (\<lambda>c. \<not> tracked c) xs @ ys @ new
                   \<and> map Some new = map (reloaded_from load) (rev (filter tracked xs))))
           \<and> (one_per_file (xs @ ys) \<longrightarrow> list_all one_per_file (registries tr))"
  using assms
proof (induction xs arbitrary: cl ys rule: rev_induct)
  case Nil
  then show ?case by simp
next
  case (snoc x xs)
  have cmds: "commands cl = xs @ x # ys"
    using snoc.prems by simp
  show ?case
  proof (cases "tracked x")
    case False
    have step: "reloadCommands_loop load (Suc (length xs)) cl
                  = reloadCommands_loop load (length xs) cl"
      using loop_step_untracked [OF cmds False] by simp
    show ?thesis
      using snoc.IH [OF cmds] False
      by (auto simp: step one_per_file_def split: prod.splits)
  next
    case True
    then obtain f where f: "filename x = Some f" "f \<noteq> []"
      using tracked_filename by blast
    let ?cl1 = "cl\<lparr>commands := xs @ ys\<rparr>"
    have step: "reloadCommands_loop load (Suc (length xs)) cl =
       (case addCommandFile load ?cl1 f of
          (cl', tr, Some e) \<Rightarrow> (cl', Stored (xs @ ys) # tr, Some e)
        | (cl', tr, None) \<Rightarrow>
            (case reloadCommands_loop load (length xs) cl' of
               (cl'', tr', r) \<Rightarrow> (cl'', Stored (xs @ ys) # tr @ tr', r)))"
      using loop_step_tracked [OF cmds f] by simp
    have sub: "one_per_file (xs @ x # ys) \<Longrightarrow> one_per_file (xs @ ys)"
      using True by (auto simp: one_per_file_def)
    from addCommandFile_cases [OF f(1), of load ?cl1]
    show ?thesis
    proof (elim disjE exE conjE)
      fix e
      assume "addCommandFile load ?cl1 f = (?cl1, [], Some e)"
      then show ?thesis
        using True sub by (simp add: step)
    next
      fix x'
      assume r: "reloaded_from load x = Some x'" and fx: "filename x' = Some f"
        and ok: "addCommandFile load ?cl1 f =
                  (?cl1\<lparr>commands := commands ?cl1 @ [x']\<rparr>,
                   [Stored (commands ?cl1 @ [x']), Emit ''commandLoaded'' [Cmd x']], None)"
      let ?cl2 = "?cl1\<lparr>commands := commands ?cl1 @ [x']\<rparr>"
      have c2: "commands ?cl2 = xs @ (ys @ [x'])" by simp
      have tx: "tracked x'"
        using fx f(2) tracked_filename by blast
      have keep: "one_per_file (xs @ x # ys) \<Longrightarrow> one_per_file (xs @ ys @ [x'])"
        using True tx f(1) fx by (auto simp: one_per_file_def)
      obtain cl'' tr' r' where rest: "reloadCommands_loop load (length xs) ?cl2 = (cl'', tr', r')"
        by (metis prod_cases3)
      have res: "reloadCommands_loop load (Suc (length xs)) cl
                   = (cl'', Stored (xs @ ys) # [Stored (xs @ ys @ [x']),
                        Emit ''commandLoaded'' [Cmd x']] @ tr', r')"
        using ok rest by (simp add: step)
      show ?thesis
        using snoc.IH [OF c2] rest True tx r sub keep
        by (auto simp: res registries_append)
    qed
  qed
qed

lemma all_names_simps:
  "all_names [] = {}"
  "all_names (c # cs) = set (names c) \<union> all_names cs"
  "all_names (xs @ ys) = all_names xs \<union> all_names ys"
  by (simp_all add: all_names_def)

lemma names_disjoint_Cons:
  "names_disjoint (c # cs) \<longleftrightarrow> set (names c) \<inter> all_names cs = {} \<and> names_disjoint cs"
  by (auto simp: all_names_def list_all_iff)

lemma names_disjoint_append:
  "names_disjoint (xs @ ys) \<longleftrightarrow>
     names_disjoint xs \<and> names_disjoint ys \<and> all_names xs \<inter> all_names ys = {}"
proof (induction xs)
  case Nil
  then show ?case by (simp add: all_names_simps)
next
  case (Cons c xs)
  show ?case
    unfolding append_Cons names_disjoint_Cons Cons.IH all_names_simps by blast
qed

lemma names_filename_update: "names (c\<lparr>filename := v\<rparr>) = names c"
  by (simp add: names_def)

lemma reload_loop_unchanged:
  assumes "commands cl = xs @ ys" and "names_disjoint (xs @ ys)"
    and "\<forall>c \<in> set xs. tracked c \<longrightarrow> unchanged_names load c"
  shows "case reloadCommands_loop load (length xs) cl of
           (cl', tr, r) \<Rightarrow> r = None \<and> all_names (commands cl') = all_names (xs @ ys)"
  using assms
proof (induction xs arbitrary: cl ys rule: rev_induct)
  case Nil
  then show ?case by simp
next
  case (snoc x xs)
  have cmds: "commands cl = xs @ x # ys"
    using snoc.prems(1) by simp
  have dis: "names_disjoint (xs @ x # ys)"
    using snoc.prems(2) by simp
  have unch: "\<forall>c \<in> set xs. tracked c \<longrightarrow> unchanged_names load c"
    using snoc.prems(3) by simp
  show ?case
  proof (cases "tracked x")
    case False
    have step: "reloadCommands_loop load (Suc (length xs)) cl
                  = reloadCommands_loop load (length xs) cl"
      using loop_step_untracked [OF cmds False] by simp
    show ?thesis
      using snoc.IH [OF cmds dis unch] by (simp add: step)
  next
    case True
    then obtain f where f: "filename x = Some f" "f \<noteq> []"
      using tracked_filename by blast
    from True snoc.prems(3) have "unchanged_names load x" by simp
    then obtain x' where x': "reloaded_from load x = Some x'" "set (names x') = set (names x)"
      by (auto simp: unchanged_names_def split: option.splits)
    let ?cl1 = "cl\<lparr>commands := xs @ ys\<rparr>"
    let ?cl2 = "?cl1\<lparr>commands := commands ?cl1 @ [x']\<rparr>"
    have nx: "name x' \<in> set (names x)"
      using x'(2) by (auto simp: names_def)
    have parts: "names_disjoint xs" "names_disjoint ys"
      "set (names x) \<inter> all_names ys = {}"
      "all_names xs \<inter> set (names x) = {}"
      "all_names xs \<inter> all_names ys = {}"
      using dis unfolding names_disjoint_append names_disjoint_Cons all_names_simps by blast+
    have apart: "set (names x) \<inter> all_names (xs @ ys) = {}"
      using parts(3,4) unfolding all_names_simps by blast
    have free: "commandForName ?cl1 (name x') = None"
      using nx apart by (auto simp: commandForName_None_iff)
    have ok: "addCommandFile load ?cl1 f =
                (?cl2, [Stored (commands ?cl1 @ [x']), Emit ''commandLoaded'' [Cmd x']], None)"
      by (rule addCommandFile_succeeds [OF f(1) x'(1) free])
    have c2: "commands ?cl2 = xs @ (ys @ [x'])" by simp
    have one: "names_disjoint [x']"
      by simp
    have tail: "names_disjoint (ys @ [x'])"
      unfolding names_disjoint_append all_names_simps
      using parts(2,3) one x'(2) by blast
    have dis2: "names_disjoint (xs @ (ys @ [x']))"
      unfolding names_disjoint_append [of xs] all_names_simps
      using parts(1,4,5) tail x'(2) by blast
    have same: "all_names (xs @ (ys @ [x'])) = all_names ((xs @ [x]) @ ys)"
      using x'(2) by (auto simp: all_names_simps)
    obtain cl'' tr' r' where rest: "reloadCommands_loop load (length xs) ?cl2 = (cl'', tr', r')"
      by (metis prod_cases3)
    have res: "reloadCommands_loop load (Suc (length xs)) cl
                 = (cl'', Stored (xs @ ys) # [Stored (xs @ ys @ [x']),
                      Emit ''commandLoaded'' [Cmd x']] @ tr', r')"
      using loop_step_tracked [OF cmds f, of load] ok rest by simp
    show ?thesis
      using snoc.IH [OF c2 dis2 unch] rest same by (simp add: res)
  qed
qed

declare reloadCommands_loop.simps(2) [simp]

lemmas example_commands =
  ping_command_def help_command_def about_command_def h_command_def from_file_def

text \<open>
  C7. \<^verbatim>\<open>reloadCommands\<close> never removes or reorders a command without a filename. When the
  pass throws nothing, the registry then holds the commands without a filename, in their
  order, followed by what the file of each command with a filename exports now, last
  command first. When no two commands of the registry come from the same file, no content
  the registry goes through during the pass holds two commands from the same file.
\<close>

theorem reloadCommands_reloads_tracked:
  "filter (\<lambda>c. \<not> tracked c) (commands (client_after (reloadCommands load cl)))
     = filter (\<lambda>c. \<not> tracked c) (commands cl)
   \<and> (thrown (reloadCommands load cl) = None \<longrightarrow>
        (\<exists>new. commands (client_after (reloadCommands load cl))
                 = filter (\<lambda>c. \<not> tracked c) (commands cl) @ new
           \<and> map Some new = map (reloaded_from load) (rev (filter tracked (commands cl)))))
   \<and> (one_per_file (commands cl) \<longrightarrow>
        list_all one_per_file (registries (actions (reloadCommands load cl))))"
  using reload_loop_shape [of cl "commands cl" "[]" load]
  by (auto simp: reloadCommands_def thrown_def client_after_def actions_def split: prod.splits)

text \<open>Reloading \<^verbatim>\<open>ping\<close> (from a file), \<^verbatim>\<open>about\<close> (added directly) and \<^verbatim>\<open>help\<close> (from a
  file).\<close>

theorem reloadCommands_reloads_tracked_witness:
  "thrown (reloadCommands command_files tracked_registry) = None
   \<and> commands (client_after (reloadCommands command_files tracked_registry))
        = [about_command, from_file ''commands/help.js'' help_command,
           from_file ''commands/ping.js'' ping_command]
   \<and> list_all one_per_file (registries (actions (reloadCommands command_files tracked_registry)))"
proof -
  have one: "one_per_file (commands tracked_registry)"
    by (simp add: tracked_registry_def one_per_file_def tracked_def falsy_def example_commands)
  have fin: "thrown (reloadCommands command_files tracked_registry) = None"
    by code_simp
  have "map (reloaded_from command_files) (rev (filter tracked (commands tracked_registry)))
          = [Some (from_file ''commands/help.js'' help_command),
             Some (from_file ''commands/ping.js'' ping_command)]"
    by (simp add: tracked_registry_def tracked_def falsy_def reloaded_from_def command_files_def
        example_commands)
  moreover have "filter (\<lambda>c. \<not> tracked c) (commands tracked_registry) = [about_command]"
    by (simp add: tracked_registry_def tracked_def falsy_def example_commands)
  ultimately show ?thesis
    using reloadCommands_reloads_tracked [of command_files tracked_registry] one fin
    by auto
qed

text \<open>The file of the only command cannot be loaded: the command is removed, the pass
  throws, and nothing is registered in its place.\<close>

theorem reloadCommands_counterexample:
  "tracked (from_file ''commands/ping.js'' ping_command)
   \<and> reloadCommands broken_files
        (ready_client\<lparr>commands := [from_file ''commands/ping.js'' ping_command]\<rparr>)
      = (ready_client\<lparr>commands := []\<rparr>, [Stored []], Some (Thrown ''SyntaxError''))"
  by (simp add: reloadCommands_def splice1_def addCommandFile_def broken_files_def tracked_def
      falsy_def from_file_def)

text \<open>
  Where no two commands of the registry share a name, and the file of every command
  with a filename still exports a command with the same set of names,
  \<^verbatim>\<open>reloadCommands\<close> throws nothing and the registry has the same names after it as
  before.
\<close>

lemma reloadCommands_keeps_names:
  assumes "names_disjoint (commands cl)"
    and "\<forall>c \<in> set (commands cl). tracked c \<longrightarrow> unchanged_names load c"
  shows "thrown (reloadCommands load cl) = None
       \<and> all_names (commands (client_after (reloadCommands load cl))) = all_names (commands cl)"
  using reload_loop_unchanged [of cl "commands cl" "[]" load] assms
  by (auto simp: reloadCommands_def thrown_def client_after_def split: prod.splits)

lemma reloadCommands_keeps_names_example:
  "names_disjoint (commands tracked_registry)
   \<and> thrown (reloadCommands command_files tracked_registry) = None
   \<and> all_names (commands (client_after (reloadCommands command_files tracked_registry)))
       = all_names (commands tracked_registry)"
proof -
  have d: "names_disjoint (commands tracked_registry)"
    by (simp add: tracked_registry_def names_def example_commands)
  have u: "\<forall>c \<in> set (commands tracked_registry). tracked c \<longrightarrow> unchanged_names command_files c"
    by (simp add: tracked_registry_def unchanged_names_def reloaded_from_def command_files_def
        names_def tracked_def falsy_def example_commands)
  show ?thesis
    using reloadCommands_keeps_names [OF d u] d by simp
qed

text \<open>
  C8. The files \<^verbatim>\<open>h.js\<close> and \<^verbatim>\<open>help.js\<close> are loaded in this order, and \<^verbatim>\<open>addCommand\<close>
  accepts \<^verbatim>\<open>help\<close> with its alias \<^verbatim>\<open>h\<close>. Both files are unchanged when
  \<^verbatim>\<open>reloadCommands\<close> runs: it registers \<^verbatim>\<open>help\<close> again, removes \<^verbatim>\<open>h\<close> and then refuses
  what \<^verbatim>\<open>h.js\<close> exports, so the pass throws and the name \<^verbatim>\<open>x\<close> is no longer a name of
  the registry.
\<close>

theorem reloadCommands_loses_name_after_alias_collision:
  "commands shadowed_registry
     = [from_file ''commands/h.js'' h_command, from_file ''commands/help.js'' help_command]
   \<and> unchanged_names command_files (from_file ''commands/h.js'' h_command)
   \<and> unchanged_names command_files (from_file ''commands/help.js'' help_command)
   \<and> thrown (reloadCommands command_files shadowed_registry)
       = Some (Error ''Command h already registered'')
   \<and> commands (client_after (reloadCommands command_files shadowed_registry))
       = [from_file ''commands/help.js'' help_command]
   \<and> Some ''x'' \<in> all_names (commands shadowed_registry)
   \<and> Some ''x'' \<notin> all_names (commands (client_after (reloadCommands command_files shadowed_registry)))"
  by code_simp

end
